theory Spec2Isabelle
  imports Main "HOL-Library.AList"
begin

section \<open>Values of the program\<close>

text \<open>
  The store keeps a JavaScript object (\<open>Record<string, any>\<close>): its own properties in
  insertion order, as an association list. Observers and pending broadcasts are kept in
  objects keyed by generated strings. Promises are named by the order of their creation.
\<close>

type_synonym guid = string
type_synonym pid = nat
type_synonym 'v obj = "(string \<times> 'v) list"

text \<open>
  Both errors are plain \<open>Error\<close> objects in the source; they are told apart by where they
  are thrown: \<open>ContractViolation\<close> is "Actions must output data that is compatible with
  the DataStore's state ..." (createActions), \<open>ConfigurationError\<close> is "Props cannot be
  null, this data store requires props parameters for each observer" (buildObserver).
\<close>

datatype error = ContractViolation | ConfigurationError

text \<open>The optional \<open>props\<close> argument of \<open>observe\<close>: omitted (\<open>undefined\<close>), \<open>null\<close>, or a value.\<close>

datatype 'p props = Undefined | Null | Props 'p

text \<open>
  A subscriber callback \<open>(newData) => void\<close> is user code. It is known by a number, and by
  whether it throws when it is called; every call is recorded in the field \<open>calls\<close> of
  the state, with the data it was given.
\<close>

datatype callback = Callback (cb_id: nat) (cb_throws: bool)

text \<open>
  The classes an observer can be built from: the \<open>BroadcasterObserver\<close> of the source, and
  the subclass \<open>LoggerObserver\<close> of the README ("Custom Observer Instance"), whose
  \<open>update\<close> writes the data to the console and then calls \<open>super.update\<close>.
\<close>

datatype observerClass = BroadcasterObserver | LoggerObserver

record 'p observer =
  callback :: callback
  params :: "'p props"
  observerClass :: observerClass

text \<open>What a transition function of \<open>createActions\<close> can return, to the extent the source tells
  the cases apart (\<open>!result\<close>, \<open>typeof result\<close>, \<open>Symbol.toStringTag\<close>).\<close>

datatype 'v actionResult =
    ReturnsNull
  | ReturnsUndefined
  | ReturnsPrimitive
  | ReturnsFunction
  | ReturnsObject "'v obj"
  | ReturnsPromise

type_synonym 'v action = "'v obj \<Rightarrow> 'v actionResult"

section \<open>Promises, microtasks and animation frames\<close>

text \<open>
  The values promises of this program are settled with: \<open>undefined\<close>, a boolean, the
  partial state an action produced, the result array of \<open>Promise.allSettled\<close> (which the
  program never reads), or an error.
\<close>

datatype 'v val = VUndefined | VBool bool | VObject "'v obj" | VArray | VError string

datatype 'v outcome = Fulfilled "'v val" | Rejected "'v val"

text \<open>
  The closures the program hands to \<open>then\<close>, \<open>finally\<close> and \<open>await\<close>, one constructor for
  each place of the source:
  \<^item> \<open>ThenUpdate promise g\<close>: \<open>outputData => this.update(outputData)\<close> (createActions);
    \<open>promise\<close> is the promise \<open>then\<close> returned, \<open>g\<close> the value \<open>uuidv4()\<close> gives the
    broadcast of this update;
  \<^item> \<open>AwaitBroadcast up\<close>: the rest of \<open>update\<close> after \<open>await this.broadcast(...)\<close>, that
    is \<open>return true\<close>; \<open>up\<close> is the promise of that call of \<open>update\<close>;
  \<^item> \<open>ResolveFns p\<close>: the resolving functions of \<open>p\<close>, given to the \<open>then\<close> of the promise
    that \<open>p\<close> was resolved with;
  \<^item> \<open>AllSettledElement agg\<close>: the element functions of \<open>Promise.allSettled\<close>;
  \<^item> \<open>ThenDelete g d\<close>: \<open>() => delete this.pendingUpdates[updateGuid]\<close> (broadcast);
  \<^item> \<open>FinallyCallback observer\<close>: \<open>() => observer.callback(this._internalState)\<close>, given
    to \<open>finally\<close> by \<open>nextTick\<close> (observe).
\<close>

datatype 'p reaction =
    ThenUpdate pid guid
  | AwaitBroadcast pid
  | ResolveFns pid
  | AllSettledElement pid
  | ThenDelete guid pid
  | FinallyCallback "'p observer"

datatype ('v, 'p) pstate = Pending "'p reaction list" | Settled "'v outcome"

datatype ('v, 'p) job = ReactionJob "'p reaction" "'v outcome" | ResolveThenableJob pid pid

text \<open>The callback \<open>BroadcasterObserver.update\<close> gives to \<open>requestAnimationFrame\<close>:
  \<open>() => { this.callback(newData); resolve(); }\<close>.\<close>

datatype ('v, 'p) frameTask = FrameTask "'p observer" "'v obj" pid

section \<open>The store and its runtime\<close>

text \<open>
  The fields of \<open>Broadcaster\<close> (\<open>params\<close> with its two entries, \<open>observers\<close>,
  \<open>pendingUpdates\<close>) and of \<open>DataStore\<close> (\<open>_internalState\<close>), the two things a subclass or
  an import decides (\<open>deepEqual\<close> of the package deep-equal, and an override of
  \<open>getObserversToUpdate\<close>), and the part of the JavaScript runtime the program uses: the
  promises, the remaining-elements counters of \<open>Promise.allSettled\<close>, the microtask queue,
  the callbacks waiting for the next animation frame, the calls of subscriber callbacks
  made so far, what was written to the console, and the number of exceptions nobody caught.
\<close>

record ('v, 'p) dataStore =
  observerClassConstructor :: "observerClass option"
  propsRequired :: bool
  observers :: "(guid \<times> 'p observer) list"
  pendingUpdates :: "(guid \<times> pid) list"
  internalState :: "'v obj"
  deepEqual :: "'v obj \<Rightarrow> 'v obj \<Rightarrow> bool"
  selection :: "('v obj \<Rightarrow> 'p observer list \<Rightarrow> 'p observer list) option"
  promises :: "pid \<Rightarrow> ('v, 'p) pstate"
  nextPid :: pid
  remainingElements :: "pid \<Rightarrow> nat"
  microtasks :: "('v, 'p) job list"
  animationFrames :: "('v, 'p) frameTask list"
  calls :: "(nat \<times> 'v obj) list"
  console :: "'v obj list"
  uncaught :: nat

subsection \<open>Promise operations\<close>

text \<open>\<open>new Promise\<close>: a pending promise without reactions.\<close>

definition new_promise :: "('v, 'p) dataStore \<Rightarrow> pid \<times> ('v, 'p) dataStore" where
  "new_promise s =
     (nextPid s, s\<lparr>promises := (promises s)(nextPid s := Pending []), nextPid := Suc (nextPid s)\<rparr>)"

text \<open>\<open>Promise.resolve(v)\<close> for a value that is not a promise.\<close>

definition promise_resolved :: "'v val \<Rightarrow> ('v, 'p) dataStore \<Rightarrow> pid \<times> ('v, 'p) dataStore" where
  "promise_resolved v s =
     (nextPid s,
      s\<lparr>promises := (promises s)(nextPid s := Settled (Fulfilled v)), nextPid := Suc (nextPid s)\<rparr>)"

text \<open>Fulfilling or rejecting a promise queues one job for each reaction, in the order
  they were added; a promise that is settled already stays as it is.\<close>

definition settle :: "pid \<Rightarrow> 'v outcome \<Rightarrow> ('v, 'p) dataStore \<Rightarrow> ('v, 'p) dataStore" where
  "settle p out s =
     (case promises s p of
        Pending rs \<Rightarrow>
          s\<lparr>promises := (promises s)(p := Settled out),
            microtasks := microtasks s @ map (\<lambda>r. ReactionJob r out) rs\<rparr>
      | Settled _ \<Rightarrow> s)"

text \<open>\<open>p.then(...)\<close>, \<open>p.finally(...)\<close> and \<open>await p\<close>: the reaction waits while \<open>p\<close> is
  pending, and is queued at once when \<open>p\<close> is settled.\<close>

definition promise_then :: "pid \<Rightarrow> 'p reaction \<Rightarrow> ('v, 'p) dataStore \<Rightarrow> ('v, 'p) dataStore" where
  "promise_then p r s =
     (case promises s p of
        Pending rs \<Rightarrow> s\<lparr>promises := (promises s)(p := Pending (rs @ [r]))\<rparr>
      | Settled out \<Rightarrow> s\<lparr>microtasks := microtasks s @ [ReactionJob r out]\<rparr>)"

text \<open>Resolving \<open>p\<close> with the promise \<open>q\<close> (an async function or a \<open>then\<close> handler returns
  a promise): a job that will call \<open>q.then\<close> with the resolving functions of \<open>p\<close>.\<close>

definition resolve_with_promise :: "pid \<Rightarrow> pid \<Rightarrow> ('v, 'p) dataStore \<Rightarrow> ('v, 'p) dataStore" where
  "resolve_with_promise p q s = s\<lparr>microtasks := microtasks s @ [ResolveThenableJob p q]\<rparr>"

text \<open>\<open>Promise.allSettled(ps)\<close>: the new promise is fulfilled when every element has been
  settled, whichever way; with no element it is fulfilled at once.\<close>

fun all_settled_register :: "pid \<Rightarrow> pid list \<Rightarrow> ('v, 'p) dataStore \<Rightarrow> ('v, 'p) dataStore" where
  "all_settled_register agg [] s = s"
| "all_settled_register agg (p # ps) s =
     all_settled_register agg ps (promise_then p (AllSettledElement agg) s)"

definition all_settled :: "pid list \<Rightarrow> ('v, 'p) dataStore \<Rightarrow> pid \<times> ('v, 'p) dataStore" where
  "all_settled ps s =
     (let (agg, s1) = new_promise s;
          s2 = s1\<lparr>remainingElements := (remainingElements s1)(agg := length ps)\<rparr>;
          s3 = all_settled_register agg ps s2
      in if ps = [] then (agg, settle agg (Fulfilled VArray) s3) else (agg, s3))"

text \<open>Calling a subscriber callback: the call is recorded; the result says whether the
  callback returned (\<open>True\<close>) or threw.\<close>

definition invoke_callback ::
  "callback \<Rightarrow> 'v obj \<Rightarrow> ('v, 'p) dataStore \<Rightarrow> bool \<times> ('v, 'p) dataStore" where
  "invoke_callback cb newData s = (\<not> cb_throws cb, s\<lparr>calls := calls s @ [(cb_id cb, newData)]\<rparr>)"

section \<open>Broadcaster\<close>

text \<open>The constructor's \<open>params\<close> argument: each entry may be left out.\<close>

record broadcasterParams =
  given_observerClassConstructor :: "observerClass option"
  given_propsRequired :: "bool option"

text \<open>\<open>{...a, ...b}\<close>: the properties of \<open>a\<close>, then those of \<open>b\<close>, a later value
  replacing an earlier one under the same key.\<close>

definition spread :: "'v obj \<Rightarrow> 'v obj \<Rightarrow> 'v obj" where
  "spread a b = fold (\<lambda>(k, v). AList.update k v) b (fold (\<lambda>(k, v). AList.update k v) a [])"

definition allObservers :: "('v, 'p) dataStore \<Rightarrow> 'p observer list" where
  "allObservers s = map snd (observers s)"

definition getObserversToUpdate :: "('v, 'p) dataStore \<Rightarrow> 'v obj \<Rightarrow> 'p observer list" where
  "getObserversToUpdate s data =
     (case selection s of None \<Rightarrow> allObservers s | Some f \<Rightarrow> f data (allObservers s))"

definition BroadcasterObserver_update ::
  "'p observer \<Rightarrow> 'v obj \<Rightarrow> ('v, 'p) dataStore \<Rightarrow> pid \<times> ('v, 'p) dataStore" where
  "BroadcasterObserver_update this newData s =
     (let (p, s1) = new_promise s
      in (p, s1\<lparr>animationFrames := animationFrames s1 @ [FrameTask this newData p]\<rparr>))"

definition LoggerObserver_update ::
  "'p observer \<Rightarrow> 'v obj \<Rightarrow> ('v, 'p) dataStore \<Rightarrow> pid \<times> ('v, 'p) dataStore" where
  "LoggerObserver_update this newData s =
     BroadcasterObserver_update this newData (s\<lparr>console := console s @ [newData]\<rparr>)"

definition observer_update ::
  "'p observer \<Rightarrow> 'v obj \<Rightarrow> ('v, 'p) dataStore \<Rightarrow> pid \<times> ('v, 'p) dataStore" where
  "observer_update ob newData s =
     (case observerClass ob of
        BroadcasterObserver \<Rightarrow> BroadcasterObserver_update ob newData s
      | LoggerObserver \<Rightarrow> LoggerObserver_update ob newData s)"

text \<open>\<open>broadcastTo.map(observer => observer.update(data))\<close>\<close>

fun update_all ::
  "'p observer list \<Rightarrow> 'v obj \<Rightarrow> ('v, 'p) dataStore \<Rightarrow> pid list \<times> ('v, 'p) dataStore" where
  "update_all [] data s = ([], s)"
| "update_all (ob # obs) data s =
     (let (p, s1) = observer_update ob data s;
          (ps, s2) = update_all obs data s1
      in (p # ps, s2))"

text \<open>\<open>broadcast\<close> is an async function: \<open>bp\<close> is the promise it returns, resolved with the
  promise the body returns. \<open>updateGuid\<close> is what \<open>uuidv4()\<close> returned.\<close>

definition broadcast ::
  "'v obj \<Rightarrow> guid \<Rightarrow> ('v, 'p) dataStore \<Rightarrow> pid \<times> ('v, 'p) dataStore" where
  "broadcast data updateGuid s =
     (let (bp, s0) = new_promise s;
          broadcastTo = getObserversToUpdate s0 data
      in if length broadcastTo = 0
         then (let (r, s1) = promise_resolved VUndefined s0
               in (bp, resolve_with_promise bp r s1))
         else (let (ps, s1) = update_all broadcastTo data s0;
                   (agg, s2) = all_settled ps s1;
                   (d, s3) = new_promise s2;
                   s4 = promise_then agg (ThenDelete updateGuid d) s3;
                   s5 = s4\<lparr>pendingUpdates := AList.update updateGuid d (pendingUpdates s4)\<rparr>
               in (bp, resolve_with_promise bp d s5)))"

definition buildObserver ::
  "callback \<Rightarrow> 'p props \<Rightarrow> ('v, 'p) dataStore \<Rightarrow> error + 'p observer" where
  "buildObserver cb props s =
     (if propsRequired s \<and> props = Undefined then Inl ConfigurationError
      else Inr (case observerClassConstructor s of
                  Some cls \<Rightarrow> \<lparr>callback = cb, params = props, observerClass = cls\<rparr>
                | None \<Rightarrow> \<lparr>callback = cb, params = props, observerClass = BroadcasterObserver\<rparr>))"

text \<open>The destroy handle \<open>() => delete this.observers[guid]\<close> is the key it closes over.\<close>

type_synonym destroyCallback = guid

definition destroy :: "destroyCallback \<Rightarrow> ('v, 'p) dataStore \<Rightarrow> ('v, 'p) dataStore" where
  "destroy g s = s\<lparr>observers := AList.delete g (observers s)\<rparr>"

text \<open>\<open>g\<close> is what \<open>Broadcaster.guid()\<close> returned.\<close>

definition saveObserver ::
  "callback \<Rightarrow> 'p props \<Rightarrow> guid \<Rightarrow> ('v, 'p) dataStore
     \<Rightarrow> (error + destroyCallback \<times> 'p observer) \<times> ('v, 'p) dataStore" where
  "saveObserver cb props g s =
     (case buildObserver cb props s of
        Inl e \<Rightarrow> (Inl e, s)
      | Inr observer \<Rightarrow>
          (Inr (g, observer), s\<lparr>observers := AList.update g observer (observers s)\<rparr>))"

definition Broadcaster_observe ::
  "callback \<Rightarrow> 'p props \<Rightarrow> guid \<Rightarrow> ('v, 'p) dataStore
     \<Rightarrow> (error + destroyCallback) \<times> ('v, 'p) dataStore" where
  "Broadcaster_observe cb props g s =
     (case saveObserver cb props g s of
        (Inl e, s1) \<Rightarrow> (Inl e, s1)
      | (Inr (handle, observer), s1) \<Rightarrow> (Inr handle, s1))"

definition destroyAll :: "destroyCallback list \<Rightarrow> ('v, 'p) dataStore \<Rightarrow> ('v, 'p) dataStore" where
  "destroyAll destroyCallbacks s = fold destroy destroyCallbacks s"

section \<open>DataStore\<close>

definition DataStore_new ::
  "'v obj \<Rightarrow> broadcasterParams option \<Rightarrow> ('v obj \<Rightarrow> 'v obj \<Rightarrow> bool)
     \<Rightarrow> ('v obj \<Rightarrow> 'p observer list \<Rightarrow> 'p observer list) option \<Rightarrow> ('v, 'p) dataStore" where
  "DataStore_new initialData given deq sel =
     \<lparr>observerClassConstructor =
        (case given of None \<Rightarrow> None | Some g \<Rightarrow> given_observerClassConstructor g),
      propsRequired =
        (case given of None \<Rightarrow> False
         | Some g \<Rightarrow> (case given_propsRequired g of None \<Rightarrow> False | Some b \<Rightarrow> b)),
      observers = [],
      pendingUpdates = [],
      internalState = initialData,
      deepEqual = deq,
      selection = sel,
      promises = (\<lambda>_. Pending []),
      nextPid = 0,
      remainingElements = (\<lambda>_. 0),
      microtasks = [],
      animationFrames = [],
      calls = [],
      console = [],
      uncaught = 0\<rparr>"

text \<open>\<open>update\<close> is an async function: \<open>up\<close> is the promise it returns.\<close>

definition DataStore_update ::
  "'v obj \<Rightarrow> guid \<Rightarrow> ('v, 'p) dataStore \<Rightarrow> pid \<times> ('v, 'p) dataStore" where
  "DataStore_update data updateGuid s =
     (let (up, s1) = new_promise s;
          newState = spread (internalState s1) data;
          equal = deepEqual s1 newState (internalState s1)
      in if equal then (up, settle up (Fulfilled (VBool False)) s1)
         else (let s2 = s1\<lparr>internalState := spread (internalState s1) data\<rparr>;
                   (bp, s3) = broadcast (internalState s2) updateGuid s2
               in (up, promise_then bp (AwaitBroadcast up) s3)))"

text \<open>The bound action \<open>func\<close> of \<open>createActions\<close>. The arguments of the call are part of
  \<open>action\<close>. A promise the transition function returns is pending until someone settles it.\<close>

definition func ::
  "'v action \<Rightarrow> guid \<Rightarrow> ('v, 'p) dataStore \<Rightarrow> (error + pid) \<times> ('v, 'p) dataStore" where
  "func action updateGuid s =
     (case action (internalState s) of
        ReturnsNull \<Rightarrow> (Inl ContractViolation, s)
      | ReturnsUndefined \<Rightarrow> (Inl ContractViolation, s)
      | ReturnsPrimitive \<Rightarrow> (Inl ContractViolation, s)
      | ReturnsFunction \<Rightarrow> (Inl ContractViolation, s)
      | ReturnsObject data \<Rightarrow>
          (let (promisified, s1) = promise_resolved (VObject data) s;
               (promise, s2) = new_promise s1
           in (Inr promise, promise_then promisified (ThenUpdate promise updateGuid) s2))
      | ReturnsPromise \<Rightarrow>
          (let (result, s1) = new_promise s;
               (promise, s2) = new_promise s1
           in (Inr promise, promise_then result (ThenUpdate promise updateGuid) s2)))"

definition nextTick :: "'p reaction \<Rightarrow> ('v, 'p) dataStore \<Rightarrow> ('v, 'p) dataStore" where
  "nextTick continuation s =
     (let pendingUpdatePromises = map snd (pendingUpdates s);
          (agg, s1) = all_settled pendingUpdatePromises s
      in promise_then agg continuation s1)"

definition DataStore_observe ::
  "callback \<Rightarrow> 'p props \<Rightarrow> bool \<Rightarrow> guid \<Rightarrow> ('v, 'p) dataStore
     \<Rightarrow> (error + destroyCallback) \<times> ('v, 'p) dataStore" where
  "DataStore_observe cb props updateImmediately g s =
     (case saveObserver cb props g s of
        (Inl e, s1) \<Rightarrow> (Inl e, s1)
      | (Inr (handle, observer), s1) \<Rightarrow>
          (Inr handle, if updateImmediately then nextTick (FinallyCallback observer) s1 else s1))"

section \<open>Running the queued work\<close>

text \<open>The data \<open>update\<close> spreads over the state: the properties of an object, none of
  \<open>undefined\<close>, \<open>null\<close> or a boolean.\<close>

fun as_partial :: "'v val \<Rightarrow> 'v obj" where
  "as_partial (VObject data) = data"
| "as_partial _ = []"

fun run_job :: "('v, 'p) job \<Rightarrow> ('v, 'p) dataStore \<Rightarrow> ('v, 'p) dataStore" where
  "run_job (ReactionJob (ThenUpdate promise g) (Fulfilled outputData)) s =
     (let (up, s1) = DataStore_update (as_partial outputData) g s
      in resolve_with_promise promise up s1)"
| "run_job (ReactionJob (ThenUpdate promise g) (Rejected e)) s = settle promise (Rejected e) s"
| "run_job (ReactionJob (AwaitBroadcast up) (Fulfilled v)) s = settle up (Fulfilled (VBool True)) s"
| "run_job (ReactionJob (AwaitBroadcast up) (Rejected e)) s = settle up (Rejected e) s"
| "run_job (ReactionJob (ResolveFns p) out) s = settle p out s"
| "run_job (ReactionJob (AllSettledElement agg) out) s =
     (let n = remainingElements s agg - 1;
          s1 = s\<lparr>remainingElements := (remainingElements s)(agg := n)\<rparr>
      in if n = 0 then settle agg (Fulfilled VArray) s1 else s1)"
| "run_job (ReactionJob (ThenDelete g d) (Fulfilled v)) s =
     settle d (Fulfilled (VBool True)) (s\<lparr>pendingUpdates := AList.delete g (pendingUpdates s)\<rparr>)"
| "run_job (ReactionJob (ThenDelete g d) (Rejected e)) s = settle d (Rejected e) s"
| "run_job (ReactionJob (FinallyCallback observer) out) s =
     (let (returned, s1) = invoke_callback (callback observer) (internalState s) s
      in if returned then s1 else s1\<lparr>uncaught := Suc (uncaught s1)\<rparr>)"
| "run_job (ResolveThenableJob p q) s = promise_then q (ResolveFns p) s"

definition run_microtask :: "('v, 'p) dataStore \<Rightarrow> ('v, 'p) dataStore" where
  "run_microtask s =
     (case microtasks s of [] \<Rightarrow> s | j # js \<Rightarrow> run_job j (s\<lparr>microtasks := js\<rparr>))"

text \<open>A microtask checkpoint runs jobs until the queue is empty; \<open>None\<close> when the fuel
  is used up first.\<close>

fun microtask_checkpoint :: "nat \<Rightarrow> ('v, 'p) dataStore \<Rightarrow> ('v, 'p) dataStore option" where
  "microtask_checkpoint 0 s = (if microtasks s = [] then Some s else None)"
| "microtask_checkpoint (Suc n) s =
     (if microtasks s = [] then Some s else microtask_checkpoint n (run_microtask s))"

text \<open>One callback of the animation frame: an exception leaves it before \<open>resolve()\<close>.\<close>

fun run_frameTask :: "('v, 'p) frameTask \<Rightarrow> ('v, 'p) dataStore \<Rightarrow> ('v, 'p) dataStore" where
  "run_frameTask (FrameTask this newData p) s =
     (let (returned, s1) = invoke_callback (callback this) newData s
      in if returned then settle p (Fulfilled VUndefined) s1
         else s1\<lparr>uncaught := Suc (uncaught s1)\<rparr>)"

text \<open>An animation frame runs the callbacks that were waiting when it began, in the order
  of their registration, with a microtask checkpoint after each; an exception in one is
  reported and the next one runs.\<close>

fun run_frameTasks ::
  "nat \<Rightarrow> ('v, 'p) frameTask list \<Rightarrow> ('v, 'p) dataStore \<Rightarrow> ('v, 'p) dataStore option" where
  "run_frameTasks fuel [] s = Some s"
| "run_frameTasks fuel (t # ts) s =
     (case microtask_checkpoint fuel (run_frameTask t s) of
        None \<Rightarrow> None
      | Some s1 \<Rightarrow> run_frameTasks fuel ts s1)"

definition animation_frame :: "nat \<Rightarrow> ('v, 'p) dataStore \<Rightarrow> ('v, 'p) dataStore option" where
  "animation_frame fuel s = run_frameTasks fuel (animationFrames s) (s\<lparr>animationFrames := []\<rparr>)"

text \<open>
  The promises of one broadcast in flight, as \<open>func\<close>, \<open>update\<close> and \<open>broadcast\<close> leave
  them when the microtasks have run: \<open>promise\<close> is what the action returned, \<open>up\<close> and
  \<open>bp\<close> are the promises of \<open>update\<close> and \<open>broadcast\<close>, \<open>agg\<close> is the result of
  \<open>Promise.allSettled\<close>, \<open>dl\<close> the entry of the ledger under \<open>g\<close>, \<open>ws\<close> is what
  \<open>nextTick\<close> has added to the reactions of that entry since, and \<open>es\<close> are the promises
  of the observers' \<open>update\<close> that have not been resolved.
\<close>

definition inflight ::
  "('v, 'p) dataStore \<Rightarrow> guid \<Rightarrow> pid \<Rightarrow> pid \<Rightarrow> pid \<Rightarrow> pid \<Rightarrow> pid \<Rightarrow> 'p reaction list
     \<Rightarrow> pid list \<Rightarrow> bool" where
  "inflight s g promise up bp agg dl ws es \<longleftrightarrow>
     microtasks s = [] \<and> distinct (promise # up # bp # agg # dl # es) \<and>
     promises s promise = Pending [] \<and>
     promises s up = Pending [ResolveFns promise] \<and>
     promises s bp = Pending [AwaitBroadcast up] \<and>
     promises s agg = Pending [ThenDelete g dl] \<and>
     promises s dl = Pending (ResolveFns bp # ws) \<and>
     list_all (\<lambda>e. promises s e = Pending [AllSettledElement agg]) es"

section \<open>Example stores\<close>

text \<open>A \<open>deepEqual\<close> for objects whose property values are compared with \<open>=\<close>: the same
  keys with the same values, in any order.\<close>

definition sameProperties :: "'v obj \<Rightarrow> 'v obj \<Rightarrow> bool" where
  "sameProperties a b = list_all (\<lambda>k. map_of a k = map_of b k) (map fst a @ map fst b)"

text \<open>\<open>new DataStore({n: 0})\<close> and \<open>new DataStore({n: 0}, {propsRequired: true})\<close>.\<close>

definition counterStore :: "(int, nat) dataStore" where
  "counterStore = DataStore_new [(''n'', 0)] None sameProperties None"

definition strictStore :: "(int, nat) dataStore" where
  "strictStore =
     DataStore_new [(''n'', 0)]
       (Some \<lparr>given_observerClassConstructor = None, given_propsRequired = Some True\<rparr>)
       sameProperties None"

text \<open>The action \<open>(state) => ({n: k})\<close>, an action that returns \<open>null\<close>, and an action
  that returns a promise (which stays pending).\<close>

definition setN :: "int \<Rightarrow> int action" where
  "setN k = (\<lambda>state. ReturnsObject [(''n'', k)])"

definition returnsNull :: "int action" where
  "returnsNull = (\<lambda>state. ReturnsNull)"




text \<open>\<open>counterStore\<close> with one subscriber whose callback returns; with two, the first of
  which throws; and with three.\<close>

definition oneObserver :: "(int, nat) dataStore" where
  "oneObserver = snd (DataStore_observe (Callback 1 False) Undefined False ''a'' counterStore)"

definition twoObservers :: "(int, nat) dataStore" where
  "twoObservers =
     snd (DataStore_observe (Callback 2 False) Undefined False ''b''
       (snd (DataStore_observe (Callback 1 True) Undefined False ''a'' counterStore)))"

definition threeObservers :: "(int, nat) dataStore" where
  "threeObservers =
     snd (DataStore_observe (Callback 3 False) Null False ''c''
       (snd (DataStore_observe (Callback 2 False) (Props 5) False ''b''
         (snd (DataStore_observe (Callback 1 False) Undefined False ''a'' counterStore)))))"

section \<open>Example runs\<close>

text \<open>What a run is judged by: the state, the calls of subscriber callbacks, the ledger,
  the callbacks waiting for a frame, the jobs waiting, the exceptions nobody caught, and
  the states of the promises asked for.\<close>

definition report ::
  "pid list \<Rightarrow> ('v, 'p) dataStore
     \<Rightarrow> 'v obj \<times> (nat \<times> 'v obj) list \<times> (guid \<times> pid) list \<times> ('v, 'p) frameTask list
        \<times> ('v, 'p) job list \<times> nat \<times> ('v, 'p) pstate list" where
  "report ps s =
     (internalState s, calls s, pendingUpdates s, animationFrames s, microtasks s, uncaught s,
      map (promises s) ps)"

text \<open>\<open>store.actions.set(1)\<close> and the microtasks after it.\<close>

definition committed :: "(int, nat) dataStore \<Rightarrow> (int, nat) dataStore option" where
  "committed s = microtask_checkpoint 10 (snd (func (setN 1) ''u1'' s))"

text \<open>Then the next animation frame.\<close>

definition delivered :: "(int, nat) dataStore \<Rightarrow> (int, nat) dataStore option" where
  "delivered s = Option.bind (committed s) (animation_frame 10)"

text \<open>Then \<open>store.observe(cb3)\<close> and the microtasks after it.\<close>

definition lateSubscriber :: "(int, nat) dataStore \<Rightarrow> (int, nat) dataStore option" where
  "lateSubscriber s =
     Option.bind (delivered s)
       (\<lambda>s1. microtask_checkpoint 10
               (snd (DataStore_observe (Callback 3 False) Undefined True ''c'' s1)))"



text \<open>The only subscriber's destroy handle is called while the broadcast of
  \<open>store.actions.set(1)\<close> waits for its animation frame; then the frame.\<close>

definition destroyedInFlight :: "(int, nat) dataStore option" where
  "destroyedInFlight = map_option (destroy ''a'') (committed oneObserver)"

definition destroyedInFlight_frame :: "(int, nat) dataStore option" where
  "destroyedInFlight_frame = Option.bind destroyedInFlight (animation_frame 10)"

section \<open>Fields an operation leaves alone\<close>

lemma new_promise_simps [simp]:
  "fst (new_promise s) = nextPid s"
  "snd (new_promise s) =
     s\<lparr>promises := (promises s)(nextPid s := Pending []), nextPid := Suc (nextPid s)\<rparr>"
  by (simp_all add: new_promise_def)

lemma settle_fields [simp]:
  "observerClassConstructor (settle p out s) = observerClassConstructor s"
  "propsRequired (settle p out s) = propsRequired s"
  "observers (settle p out s) = observers s"
  "pendingUpdates (settle p out s) = pendingUpdates s"
  "internalState (settle p out s) = internalState s"
  "deepEqual (settle p out s) = deepEqual s"
  "selection (settle p out s) = selection s"
  "nextPid (settle p out s) = nextPid s"
  "remainingElements (settle p out s) = remainingElements s"
  "animationFrames (settle p out s) = animationFrames s"
  "calls (settle p out s) = calls s"
  "console (settle p out s) = console s"
  "uncaught (settle p out s) = uncaught s"
  by (simp_all add: settle_def split: pstate.splits)

lemma promise_then_fields [simp]:
  "observerClassConstructor (promise_then p r s) = observerClassConstructor s"
  "propsRequired (promise_then p r s) = propsRequired s"
  "observers (promise_then p r s) = observers s"
  "pendingUpdates (promise_then p r s) = pendingUpdates s"
  "internalState (promise_then p r s) = internalState s"
  "deepEqual (promise_then p r s) = deepEqual s"
  "selection (promise_then p r s) = selection s"
  "nextPid (promise_then p r s) = nextPid s"
  "remainingElements (promise_then p r s) = remainingElements s"
  "animationFrames (promise_then p r s) = animationFrames s"
  "calls (promise_then p r s) = calls s"
  "console (promise_then p r s) = console s"
  "uncaught (promise_then p r s) = uncaught s"
  by (simp_all add: promise_then_def split: pstate.splits)

lemma all_settled_register_fields [simp]:
  "observerClassConstructor (all_settled_register a ps s) = observerClassConstructor s"
  "propsRequired (all_settled_register a ps s) = propsRequired s"
  "observers (all_settled_register a ps s) = observers s"
  "pendingUpdates (all_settled_register a ps s) = pendingUpdates s"
  "internalState (all_settled_register a ps s) = internalState s"
  "deepEqual (all_settled_register a ps s) = deepEqual s"
  "selection (all_settled_register a ps s) = selection s"
  "nextPid (all_settled_register a ps s) = nextPid s"
  "remainingElements (all_settled_register a ps s) = remainingElements s"
  "animationFrames (all_settled_register a ps s) = animationFrames s"
  "calls (all_settled_register a ps s) = calls s"
  "console (all_settled_register a ps s) = console s"
  "uncaught (all_settled_register a ps s) = uncaught s"
  by (induction ps arbitrary: s; simp)+

lemma all_settled_fields [simp]:
  "fst (all_settled ps s) = nextPid s"
  "observerClassConstructor (snd (all_settled ps s)) = observerClassConstructor s"
  "propsRequired (snd (all_settled ps s)) = propsRequired s"
  "observers (snd (all_settled ps s)) = observers s"
  "pendingUpdates (snd (all_settled ps s)) = pendingUpdates s"
  "internalState (snd (all_settled ps s)) = internalState s"
  "deepEqual (snd (all_settled ps s)) = deepEqual s"
  "selection (snd (all_settled ps s)) = selection s"
  "nextPid (snd (all_settled ps s)) = Suc (nextPid s)"
  "animationFrames (snd (all_settled ps s)) = animationFrames s"
  "calls (snd (all_settled ps s)) = calls s"
  "console (snd (all_settled ps s)) = console s"
  "uncaught (snd (all_settled ps s)) = uncaught s"
  by (simp_all add: all_settled_def new_promise_def Let_def)

lemma nextTick_fields [simp]:
  "observerClassConstructor (nextTick r s) = observerClassConstructor s"
  "propsRequired (nextTick r s) = propsRequired s"
  "observers (nextTick r s) = observers s"
  "pendingUpdates (nextTick r s) = pendingUpdates s"
  "internalState (nextTick r s) = internalState s"
  "deepEqual (nextTick r s) = deepEqual s"
  "selection (nextTick r s) = selection s"
  "nextPid (nextTick r s) = Suc (nextPid s)"
  "animationFrames (nextTick r s) = animationFrames s"
  "calls (nextTick r s) = calls s"
  "console (nextTick r s) = console s"
  "uncaught (nextTick r s) = uncaught s"
  by (simp_all add: nextTick_def split_def Let_def)

section \<open>What the operations do to the runtime\<close>

lemma observer_update_fst [simp]: "fst (observer_update ob d s) = nextPid s"
  by (simp add: observer_update_def BroadcasterObserver_update_def LoggerObserver_update_def
      split_def split: observerClass.splits)

lemma observer_update_fields [simp]:
  "observerClassConstructor (snd (observer_update ob d s)) = observerClassConstructor s"
  "propsRequired (snd (observer_update ob d s)) = propsRequired s"
  "observers (snd (observer_update ob d s)) = observers s"
  "pendingUpdates (snd (observer_update ob d s)) = pendingUpdates s"
  "internalState (snd (observer_update ob d s)) = internalState s"
  "deepEqual (snd (observer_update ob d s)) = deepEqual s"
  "selection (snd (observer_update ob d s)) = selection s"
  "nextPid (snd (observer_update ob d s)) = Suc (nextPid s)"
  "remainingElements (snd (observer_update ob d s)) = remainingElements s"
  "microtasks (snd (observer_update ob d s)) = microtasks s"
  "animationFrames (snd (observer_update ob d s)) = animationFrames s @ [FrameTask ob d (nextPid s)]"
  "calls (snd (observer_update ob d s)) = calls s"
  "uncaught (snd (observer_update ob d s)) = uncaught s"
  "promises (snd (observer_update ob d s)) = (promises s)(nextPid s := Pending [])"
  "console (snd (observer_update ob d s)) =
     console s @ (if observerClass ob = LoggerObserver then [d] else [])"
  by (simp_all add: observer_update_def BroadcasterObserver_update_def LoggerObserver_update_def
      split_def split: observerClass.splits)

lemma upt_shift: "[n..<n + length (x # xs)] = n # [Suc n..<Suc n + length xs]"
  by (simp add: upt_conv_Cons del: upt_Suc)

lemma update_all_fst [simp]:
  "fst (update_all obs d s) = [nextPid s ..< nextPid s + length obs]"
proof (induction obs arbitrary: s)
  case Nil
  then show ?case by simp
next
  case (Cons ob obs)
  show ?case unfolding upt_shift by (simp add: split_def Cons.IH del: upt_Suc)
qed

lemma update_all_fields [simp]:
  "observerClassConstructor (snd (update_all obs d s)) = observerClassConstructor s"
  "propsRequired (snd (update_all obs d s)) = propsRequired s"
  "observers (snd (update_all obs d s)) = observers s"
  "pendingUpdates (snd (update_all obs d s)) = pendingUpdates s"
  "internalState (snd (update_all obs d s)) = internalState s"
  "deepEqual (snd (update_all obs d s)) = deepEqual s"
  "selection (snd (update_all obs d s)) = selection s"
  "nextPid (snd (update_all obs d s)) = nextPid s + length obs"
  "remainingElements (snd (update_all obs d s)) = remainingElements s"
  "microtasks (snd (update_all obs d s)) = microtasks s"
  "calls (snd (update_all obs d s)) = calls s"
  "uncaught (snd (update_all obs d s)) = uncaught s"
  by (induction obs arbitrary: s; simp add: split_def)+

lemma update_all_frames [simp]:
  "animationFrames (snd (update_all obs d s)) =
     animationFrames s @ map2 (\<lambda>ob p. FrameTask ob d p) obs [nextPid s ..< nextPid s + length obs]"
proof (induction obs arbitrary: s)
  case Nil
  then show ?case by simp
next
  case (Cons ob obs)
  show ?case unfolding upt_shift by (simp add: split_def Cons.IH del: upt_Suc)
qed

lemma update_all_console [simp]:
  "console (snd (update_all obs d s)) =
     console s @ map (\<lambda>ob. d) (filter (\<lambda>ob. observerClass ob = LoggerObserver) obs)"
  by (induction obs arbitrary: s; simp add: split_def)

lemma update_all_promises [simp]:
  "promises (snd (update_all obs d s)) p =
     (if nextPid s \<le> p \<and> p < nextPid s + length obs then Pending [] else promises s p)"
proof (induction obs arbitrary: s)
  case Nil
  then show ?case by auto
next
  case (Cons ob obs)
  then show ?case by (auto simp add: split_def)
qed



lemma getObserversToUpdate_unchanged [simp]:
  "getObserversToUpdate (s\<lparr>promises := pr, nextPid := n\<rparr>) data = getObserversToUpdate s data"
  "getObserversToUpdate (s\<lparr>internalState := st\<rparr>) data = getObserversToUpdate s data"
  by (simp_all add: getObserversToUpdate_def allObservers_def split: option.splits)


lemma broadcast_fst [simp]: "fst (broadcast data g s) = nextPid s"
  by (simp add: broadcast_def Let_def split_def)

lemma broadcast_fields [simp]:
  "observerClassConstructor (snd (broadcast data g s)) = observerClassConstructor s"
  "propsRequired (snd (broadcast data g s)) = propsRequired s"
  "observers (snd (broadcast data g s)) = observers s"
  "internalState (snd (broadcast data g s)) = internalState s"
  "deepEqual (snd (broadcast data g s)) = deepEqual s"
  "selection (snd (broadcast data g s)) = selection s"
  "calls (snd (broadcast data g s)) = calls s"
  "uncaught (snd (broadcast data g s)) = uncaught s"
  by (simp_all add: broadcast_def Let_def split_def resolve_with_promise_def promise_resolved_def)

lemma broadcast_frames:
  "animationFrames (snd (broadcast data g s)) =
     animationFrames s @ map2 (\<lambda>ob p. FrameTask ob data p) (getObserversToUpdate s data)
        [Suc (nextPid s) ..< Suc (nextPid s) + length (getObserversToUpdate s data)]"
  by (simp add: broadcast_def Let_def split_def resolve_with_promise_def promise_resolved_def)




lemma getObserversToUpdate_committed [simp]: "getObserversToUpdate (s\<lparr>promises := pr, nextPid := n, internalState := st\<rparr>) data = getObserversToUpdate s data"
  by (simp add: getObserversToUpdate_def allObservers_def split: option.splits)





lemma checkpoint_idle [simp]: "microtasks s = [] \<Longrightarrow> microtask_checkpoint fuel s = Some s"
  by (cases fuel) simp_all






lemma inflight_frames [simp]:
  "inflight (s\<lparr>animationFrames := fs\<rparr>) g promise up bp agg dl ws es
     = inflight s g promise up bp agg dl ws es"
  by (simp add: inflight_def)














lemma destroyAll_fields [simp]:
  "internalState (destroyAll ds s) = internalState s"
  "pendingUpdates (destroyAll ds s) = pendingUpdates s"
  "promises (destroyAll ds s) = promises s"
  "nextPid (destroyAll ds s) = nextPid s"
  "microtasks (destroyAll ds s) = microtasks s"
  "animationFrames (destroyAll ds s) = animationFrames s"
  "calls (destroyAll ds s) = calls s"
  "selection (destroyAll ds s) = selection s"
  "remainingElements (destroyAll ds s) = remainingElements s"
  by (induction ds arbitrary: s; simp add: destroyAll_def destroy_def)+

lemma destroyAll_eq:
  "destroyAll ds s = s\<lparr>observers := filter (\<lambda>(j, ob). j \<notin> set ds) (observers s)\<rparr>"
proof (induction ds arbitrary: s)
  case Nil
  then show ?case by (simp add: destroyAll_def)
next
  case (Cons d ds)
  have f: "\<And>xs :: (guid \<times> 'b observer) list.
         filter (\<lambda>(j, ob). j \<notin> set ds) (filter (\<lambda>(j, ob). d \<noteq> j) xs)
         = filter (\<lambda>(j, ob). j \<notin> set (d # ds)) xs"
  proof -
    fix xs :: "(guid \<times> 'b observer) list"
    show "filter (\<lambda>(j, ob). j \<notin> set ds) (filter (\<lambda>(j, ob). d \<noteq> j) xs)
         = filter (\<lambda>(j, ob). j \<notin> set (d # ds)) xs"
      by (induction xs) auto
  qed
  have "destroyAll (d # ds) s = destroyAll ds (destroy d s)"
    by (simp add: destroyAll_def)
  also have "\<dots> = (destroy d s)\<lparr>observers := filter (\<lambda>(j, ob). j \<notin> set ds) (observers (destroy d s))\<rparr>"
    by (rule Cons.IH)
  also have "\<dots> = s\<lparr>observers := filter (\<lambda>(j, ob). j \<notin> set (d # ds)) (observers s)\<rparr>"
    using f by (simp add: destroy_def AList.delete_eq)
  finally show ?case .
qed

lemma distinct_keys_removed:
  assumes "distinct (map fst xs)" and "A \<subseteq> fst ` set xs" and "finite A"
  shows "length (filter (\<lambda>(j, v). j \<notin> A) xs) = length xs - card A"
  using assms
proof (induction xs arbitrary: A)
  case Nil
  then show ?case by simp
next
  case (Cons x xs)
  obtain k v where x: "x = (k, v)" by (cases x)
  have d: "distinct (map fst xs)" and k: "k \<notin> fst ` set xs"
    using Cons.prems(1) by (auto simp add: x)
  have bound: "\<And>B. B \<subseteq> fst ` set xs \<Longrightarrow> card B \<le> length xs"
  proof -
    fix B assume "B \<subseteq> fst ` set xs"
    then have "card B \<le> card (fst ` set xs)" by (simp add: card_mono)
    also have "\<dots> \<le> card (set xs)" by (simp add: card_image_le)
    also have "\<dots> \<le> length xs" by (rule card_length)
    finally show "card B \<le> length xs" .
  qed
  show ?case
  proof (cases "k \<in> A")
    case True
    have sub: "A - {k} \<subseteq> fst ` set xs"
      using Cons.prems(2) by (auto simp add: x)
    have eq: "filter (\<lambda>(j, v). j \<notin> A) xs = filter (\<lambda>(j, v). j \<notin> A - {k}) xs"
    proof (rule filter_cong [OF refl])
      fix y assume "y \<in> set xs"
      then have "fst y \<noteq> k" using k by force
      then show "(case y of (j, v) \<Rightarrow> j \<notin> A) = (case y of (j, v) \<Rightarrow> j \<notin> A - {k})"
        by (cases y) simp
    qed
    have c: "card A = Suc (card (A - {k}))"
      by (rule card.remove [OF Cons.prems(3) True])
    have fin: "finite (A - {k})" using Cons.prems(3) by simp
    have "length (filter (\<lambda>(j, v). j \<notin> A) (x # xs)) = length (filter (\<lambda>(j, v). j \<notin> A - {k}) xs)"
      using True by (simp add: x eq)
    also have "\<dots> = length xs - card (A - {k})"
      by (rule Cons.IH [OF d sub fin])
    also have "\<dots> = length (x # xs) - card A"
      unfolding c by (simp only: length_Cons diff_Suc_Suc)
    finally show ?thesis .
  next
    case False
    have sub: "A \<subseteq> fst ` set xs"
      using Cons.prems(2) False by (auto simp add: x)
    have "length (filter (\<lambda>(j, v). j \<notin> A) (x # xs)) = Suc (length (filter (\<lambda>(j, v). j \<notin> A) xs))"
      using False by (simp add: x)
    also have "\<dots> = Suc (length xs - card A)"
      by (simp only: Cons.IH [OF d sub Cons.prems(3)])
    also have "\<dots> = length (x # xs) - card A"
      using bound [OF sub] by simp
    finally show ?thesis .
  qed
qed












lemma registry_keys_distinct:
  "distinct (map fst (observers s)) \<Longrightarrow>
   distinct (map fst (observers (snd (saveObserver cb props g s))))"
  by (cases "buildObserver cb props s") (simp_all add: saveObserver_def distinct_update)














section \<open>Subscribing\<close>

text \<open>
  C8. In a store with \<open>propsRequired = true\<close>, \<open>observe\<close> without props throws the
  configuration error at once: no observer is registered, and the store with its registry
  is what it was before the call. This holds for \<open>DataStore.observe\<close> with either value of
  \<open>updateImmediately\<close>, for \<open>Broadcaster.observe\<close> and for \<open>saveObserver\<close>.
\<close>

theorem observe_without_required_props:
  assumes "propsRequired s"
  shows "DataStore_observe cb Undefined updateImmediately g s = (Inl ConfigurationError, s)
       \<and> Broadcaster_observe cb Undefined g s = (Inl ConfigurationError, s)
       \<and> saveObserver cb Undefined g s = (Inl ConfigurationError, s)"
  using assms
  by (simp add: DataStore_observe_def Broadcaster_observe_def saveObserver_def buildObserver_def)

theorem observe_without_required_props_witness:
  "propsRequired strictStore
   \<and> DataStore_observe (Callback 1 False) Undefined True ''a'' strictStore
       = (Inl ConfigurationError, strictStore)
   \<and> observers strictStore = []"
proof -
  have h: "propsRequired strictStore"
    by (simp add: strictStore_def DataStore_new_def)
  show ?thesis
    using h observe_without_required_props [OF h, of "Callback 1 False" True "''a''"]
    by (simp add: strictStore_def DataStore_new_def)
qed

text \<open>
  C9. In a store with \<open>propsRequired = true\<close> the configuration error is thrown exactly
  when the props are \<open>undefined\<close>. With \<open>null\<close> or any value the call returns its destroy
  handle, and the observer built from the callback and these props is in the registry
  under the new key.
\<close>

theorem required_props_only_undefined:
  assumes "propsRequired s"
  shows "(fst (DataStore_observe cb props updateImmediately g s) = Inl ConfigurationError)
           = (props = Undefined)
       \<and> (props \<noteq> Undefined \<longrightarrow>
            fst (DataStore_observe cb props updateImmediately g s) = Inr g
          \<and> observers (snd (DataStore_observe cb props updateImmediately g s))
              = AList.update g
                  \<lparr>callback = cb, params = props,
                     observerClass = (case observerClassConstructor s of
                                        None \<Rightarrow> BroadcasterObserver | Some c \<Rightarrow> c)\<rparr>
                  (observers s))"
  using assms
  by (cases "observerClassConstructor s")
     (auto simp add: DataStore_observe_def saveObserver_def buildObserver_def)

theorem required_props_only_undefined_witness:
  "propsRequired strictStore
   \<and> (Null :: nat props) \<noteq> Undefined
   \<and> fst (DataStore_observe (Callback 1 False) Null True ''a'' strictStore) = Inr ''a''
   \<and> observers (snd (DataStore_observe (Callback 1 False) Null True ''a'' strictStore))
       = [(''a'', \<lparr>callback = Callback 1 False, params = Null,
                    observerClass = BroadcasterObserver\<rparr>)]"
proof -
  have h: "propsRequired strictStore"
    by (simp add: strictStore_def DataStore_new_def)
  show ?thesis
    using h required_props_only_undefined [OF h, of "Callback 1 False" Null True "''a''"]
    by (simp add: strictStore_def DataStore_new_def)
qed

section \<open>Actions\<close>

text \<open>
  C4, as the code has it. When the transition function returns \<open>null\<close>, \<open>undefined\<close>, a
  primitive or a function, the bound action throws the contract violation to its caller:
  it returns no settlement, and the store, its promises and its queues are what they were
  before the call.
\<close>

theorem contract_violation_thrown:
  assumes "action (internalState s)
             \<in> {ReturnsNull, ReturnsUndefined, ReturnsPrimitive, ReturnsFunction}"
  shows "func action g s = (Inl ContractViolation, s)"
  using assms by (auto simp add: func_def)

theorem contract_violation_thrown_witness:
  "returnsNull (internalState counterStore)
     \<in> {ReturnsNull, ReturnsUndefined, ReturnsPrimitive, ReturnsFunction}
   \<and> func returnsNull ''u1'' counterStore = (Inl ContractViolation, counterStore)"
proof -
  have h: "returnsNull (internalState counterStore)
             \<in> {ReturnsNull, ReturnsUndefined, ReturnsPrimitive, ReturnsFunction}"
    by (simp add: returnsNull_def)
  show ?thesis
    using h contract_violation_thrown [where action = returnsNull and s = counterStore and g = "''u1''"]
    by simp
qed

text \<open>
  C4, as the claim has it, fails: for the action that returns \<open>null\<close> the call gives an
  exception and no promise; none has been created and no job is queued, so there is no
  settlement that could be rejected.
\<close>

theorem contract_violation_not_a_rejection:
  "fst (func returnsNull ''u1'' counterStore) = Inl ContractViolation
   \<and> nextPid (snd (func returnsNull ''u1'' counterStore)) = 0
   \<and> microtasks (snd (func returnsNull ''u1'' counterStore)) = []"
  by (simp add: func_def returnsNull_def counterStore_def DataStore_new_def)








section \<open>A callback that throws\<close>

text \<open>
  C3 at two subscribers, the first of which throws. After \<open>set(1)\<close>, its microtasks and the
  animation frame, both callbacks have been called with the new state and one exception
  was reported. Nothing is left to run, yet promise 6 (the entry of the ledger is its
  \<open>then\<close>) is pending, the entry \<open>u1\<close> is still in the ledger, and promise 1, which the
  action returned, is pending: \<open>resolve()\<close> comes after \<open>this.callback(newData)\<close> in the
  frame callback and is never reached. A third subscriber that then calls \<open>observe\<close>
  with immediate delivery is never called: its continuation waits for the entry.
\<close>

theorem throwing_callback_leaves_broadcast_pending:
  "map_option (report [1, 6]) (delivered twoObservers) =
     Some ([(''n'', 1)], [(1, [(''n'', 1)]), (2, [(''n'', 1)])], [(''u1'', 7)], [], [], 1,
           [Pending [], Pending [ThenDelete ''u1'' 7]])
   \<and> map_option (report [1, 6]) (lateSubscriber twoObservers) =
     Some ([(''n'', 1)], [(1, [(''n'', 1)]), (2, [(''n'', 1)])], [(''u1'', 7)], [], [], 1,
           [Pending [], Pending [ThenDelete ''u1'' 7]])"
  by code_simp

section \<open>Immediate delivery\<close>






section \<open>Destroying observers\<close>

text \<open>
  C7, as the code has it. The keys of the registry are distinct. After any list of destroy
  handles of registered observers has been called, in any order and any number of times,
  the registry holds the other observers, as many as there were less the number of
  different handles called, and a broadcast that begins then registers one frame callback
  for each of them and none for a destroyed observer. Calling the handles again changes
  nothing. A handle changes the registry only: what a broadcast in flight has already
  registered for the next frame stays.
\<close>

theorem destroyed_observers_are_skipped:
  assumes "distinct (map fst (observers s))" and "set ds \<subseteq> fst ` set (observers s)"
  shows "allObservers (destroyAll ds s) = map snd (filter (\<lambda>(k, ob). k \<notin> set ds) (observers s))
       \<and> length (allObservers (destroyAll ds s)) = length (observers s) - card (set ds)
       \<and> (selection s = None \<longrightarrow>
            animationFrames (snd (broadcast data u (destroyAll ds s))) =
              animationFrames s @
              map2 (\<lambda>ob p. FrameTask ob data p)
                (map snd (filter (\<lambda>(k, ob). k \<notin> set ds) (observers s)))
                [Suc (nextPid s) ..< Suc (nextPid s) + (length (observers s) - card (set ds))])
       \<and> destroyAll (ds @ ds) s = destroyAll ds s
       \<and> destroyAll (rev ds) s = destroyAll ds s
       \<and> destroyAll ds s = s\<lparr>observers := filter (\<lambda>(k, ob). k \<notin> set ds) (observers s)\<rparr>"
proof -
  have 1: "allObservers (destroyAll ds s) = map snd (filter (\<lambda>(k, ob). k \<notin> set ds) (observers s))"
    by (simp add: allObservers_def destroyAll_eq)
  have 2: "length (allObservers (destroyAll ds s)) = length (observers s) - card (set ds)"
    using distinct_keys_removed [OF assms(1,2)] by (simp add: 1)
  have 3: "selection s = None \<longrightarrow>
            animationFrames (snd (broadcast data u (destroyAll ds s))) =
              animationFrames s @
              map2 (\<lambda>ob p. FrameTask ob data p)
                (map snd (filter (\<lambda>(k, ob). k \<notin> set ds) (observers s)))
                [Suc (nextPid s) ..< Suc (nextPid s) + (length (observers s) - card (set ds))]"
    using 1 2 by (simp add: broadcast_frames getObserversToUpdate_def del: upt_Suc)
  have 4: "destroyAll (ds @ ds) s = destroyAll ds s"
    by (simp add: destroyAll_eq)
  have 5: "destroyAll (rev ds) s = destroyAll ds s"
    by (simp add: destroyAll_eq)
  have 6: "destroyAll ds s = s\<lparr>observers := filter (\<lambda>(k, ob). k \<notin> set ds) (observers s)\<rparr>"
    by (rule destroyAll_eq)
  show ?thesis using 1 2 3 4 5 6 by simp
qed

theorem destroyed_observers_are_skipped_witness:
  "distinct (map fst (observers threeObservers))
   \<and> set [''b'', ''a'', ''b''] \<subseteq> fst ` set (observers threeObservers)
   \<and> length (observers threeObservers) = 3
   \<and> card (set [''b'', ''a'', ''b'']) = 2
   \<and> allObservers (destroyAll [''b'', ''a'', ''b''] threeObservers)
       = [\<lparr>callback = Callback 3 False, params = Null, observerClass = BroadcasterObserver\<rparr>]
   \<and> length (allObservers (destroyAll [''b'', ''a'', ''b''] threeObservers)) = 1
   \<and> selection threeObservers = None
   \<and> animationFrames (snd (broadcast [(''n'', 1)] ''u1'' (destroyAll [''b'', ''a'', ''b''] threeObservers)))
       = [FrameTask \<lparr>callback = Callback 3 False, params = Null, observerClass = BroadcasterObserver\<rparr>
            [(''n'', 1)] 1]"
proof -
  have o: "observers threeObservers =
      [(''a'', \<lparr>callback = Callback 1 False, params = Undefined, observerClass = BroadcasterObserver\<rparr>),
       (''b'', \<lparr>callback = Callback 2 False, params = Props 5, observerClass = BroadcasterObserver\<rparr>),
       (''c'', \<lparr>callback = Callback 3 False, params = Null, observerClass = BroadcasterObserver\<rparr>)]"
    by code_simp
  have f: "selection threeObservers = None" "animationFrames threeObservers = []"
    "nextPid threeObservers = 0"
    by code_simp+
  have d: "distinct (map fst (observers threeObservers))"
    by (simp add: o)
  have sub: "set [''b'', ''a'', ''b''] \<subseteq> fst ` set (observers threeObservers)"
    by (simp add: o)
  have c: "card (set [''b'', ''a'', ''b'']) = 2"
    by (simp add: card_insert_if)
  note t = destroyed_observers_are_skipped [where s = threeObservers and ds = "[''b'', ''a'', ''b'']"
        and data = "[(''n'', 1)]" and u = "''u1''", OF d sub]
  note t1 = t [THEN conjunct1]
  note t2 = t [THEN conjunct2, THEN conjunct1]
  note t3 = t [THEN conjunct2, THEN conjunct2, THEN conjunct1]
  show ?thesis
    using d sub c t1 t2 t3
    by (simp add: o f del: upt_Suc) (simp add: upt_conv_Cons)
qed

text \<open>
  C7, as the claim has it, fails for a handle called while a broadcast is in flight:
  the only subscriber is destroyed after \<open>set(1)\<close> has begun its broadcast; the registry
  is empty, and the animation frame still calls its callback.
\<close>

theorem delivery_after_destroy:
  "map_option observers destroyedInFlight = Some []
   \<and> map_option (report []) destroyedInFlight =
       Some ([(''n'', 1)], [], [(''u1'', 6)],
             [FrameTask \<lparr>callback = Callback 1 False, params = Undefined,
                          observerClass = BroadcasterObserver\<rparr> [(''n'', 1)] 4],
             [], 0, [])
   \<and> map_option (report []) destroyedInFlight_frame =
       Some ([(''n'', 1)], [(1, [(''n'', 1)])], [], [], [], 0, [])"
  by code_simp

end
